theory Spec2Isabelle
  imports Main "HOL-Library.Word"
begin

unbundle bit_operations_syntax

section \<open>Constants of the driver\<close>

text \<open>
  \<^verbatim>\<open>PAGE_SIZE\<close> and \<^verbatim>\<open>PAGE_MASK\<close> are the kernel's macros.  The module \<^verbatim>\<open>tfs_client\<close>
  is written for 4K pages: it defines \<^verbatim>\<open>PAGE_SHIFT_4K\<close> as 12 and installs it as the
  shift that belongs to the block size \<^verbatim>\<open>PAGE_SIZE\<close>, and its test programs define
  \<^verbatim>\<open>PAGE_SIZE\<close> as 4096.  \<^verbatim>\<open>size_t\<close>, \<^verbatim>\<open>unsigned long\<close>, \<^verbatim>\<open>loff_t\<close> and user
  addresses are 64-bit words.  Return codes are C integers: zero or a byte count on
  success, a negated errno on failure.  \<^verbatim>\<open>MAX_QUEUE_SIZE\<close> is defined by the module and
  used nowhere in it.
\<close>

type_synonym u64 = "64 word"

definition PAGE_SHIFT_4K :: nat where
  "PAGE_SHIFT_4K = 12"

definition PAGE_SIZE :: u64 where
  "PAGE_SIZE = push_bit PAGE_SHIFT_4K 1"

definition PAGE_MASK :: u64 where
  "PAGE_MASK = NOT (PAGE_SIZE - 1)"

definition MAX_QUEUE_SIZE :: nat where
  "MAX_QUEUE_SIZE = 128"

definition ENOMEM :: int where "ENOMEM = 12"
definition EFAULT :: int where "EFAULT = 14"
definition EINVAL :: int where "EINVAL = 22"
definition ENOTTY :: int where "ENOTTY = 25"
definition ENODATA :: int where "ENODATA = 61"

section \<open>Data model\<close>

text \<open>
  A \<^verbatim>\<open>struct page *\<close> is identified with the frame it describes, so
  \<^verbatim>\<open>page_to_pfn\<close> is the identity on that number; \<^verbatim>\<open>NULL\<close> is \<open>None\<close>.
\<close>

type_synonym page = nat

definition page_to_pfn :: "page \<Rightarrow> nat" where
  "page_to_pfn p = p"

text \<open>\<^verbatim>\<open>struct tfs_xfer\<close>; the list node is the position in \<open>xfer_list\<close>.\<close>

record tfs_xfer =
  page :: "page option"
  offset :: u64
  size_x :: u64
  pfn :: nat

text \<open>\<^verbatim>\<open>struct tfs_xfer_info\<close>, the record copied out by \<^verbatim>\<open>TFS_GET_XFER_INFO\<close>.\<close>

record tfs_xfer_info =
  info_offset :: u64
  info_size :: u64
  info_pfn :: nat

text \<open>
  \<^verbatim>\<open>struct tfs_data\<close>.  The wait queue \<open>wq\<close> is the number of wake-ups sent to it;
  \<open>mmap_lock\<close> tells whether the mutex is held; the four error counters are
  \<^verbatim>\<open>atomic_t\<close>, 32 bits that wrap around.
\<close>

type_synonym atomic_t = "32 word"

record tfs_data =
  wq :: nat
  xfer_list :: "tfs_xfer list"
  mmap_lock :: bool
  current_xfer :: "tfs_xfer option"
  read_errors :: atomic_t
  write_errors :: atomic_t
  ioctl_errors :: atomic_t
  mmap_errors :: atomic_t

text \<open>
  One range installed by \<^verbatim>\<open>remap_pfn_range\<close> in the consumer's address space.
\<close>

record mapping =
  map_start :: u64
  map_len :: u64
  map_pfn :: nat

text \<open>
  The state the handlers run in: the global pointer \<^verbatim>\<open>tfs_ctx\<close> (\<open>None\<close> is
  \<^verbatim>\<open>NULL\<close>), the module parameter \<^verbatim>\<open>enable_zero_copy\<close>, the reference count of every
  page, and the ranges currently mapped into the consumer.
\<close>

record kernel =
  tfs_ctx :: "tfs_data option"
  enable_zero_copy :: bool
  refcount :: "page \<Rightarrow> int"
  mappings :: "mapping list"

section \<open>Kernel primitives used by the handlers\<close>

definition get_page :: "page \<Rightarrow> kernel \<Rightarrow> kernel" where
  "get_page p g = g\<lparr>refcount := (refcount g)(p := refcount g p + 1)\<rparr>"

definition put_page :: "page \<Rightarrow> kernel \<Rightarrow> kernel" where
  "put_page p g = g\<lparr>refcount := (refcount g)(p := refcount g p - 1)\<rparr>"

definition list_add_tail :: "tfs_xfer \<Rightarrow> tfs_data \<Rightarrow> tfs_data" where
  "list_add_tail x d = d\<lparr>xfer_list := xfer_list d @ [x]\<rparr>"

definition wake_up_interruptible :: "tfs_data \<Rightarrow> tfs_data" where
  "wake_up_interruptible d = d\<lparr>wq := wq d + 1\<rparr>"

text \<open>
  What the environment answers during one call of \<^verbatim>\<open>tfs_file_write\<close>: whether
  \<^verbatim>\<open>access_ok\<close> accepts the buffer, whether \<^verbatim>\<open>kzalloc\<close> returns memory, the return
  value of \<^verbatim>\<open>get_user_pages_fast\<close> and the page it pins when it returns 1, the page
  \<^verbatim>\<open>alloc_page\<close> returns, and whether \<^verbatim>\<open>copy_from_user\<close> leaves bytes uncopied.
\<close>

record write_env =
  access_ok :: bool
  kzalloc_ok :: bool
  gup_ret :: int
  gup_page :: page
  alloc_page_res :: "page option"
  copy_from_user_fails :: bool

text \<open>
  \<^verbatim>\<open>get_user_pages_fast(addr, 1, 1, &page)\<close>: asked for one page, it pins that page
  and returns 1, or pins nothing and returns 0 or a negative errno.
\<close>

definition get_user_pages_fast :: "write_env \<Rightarrow> kernel \<Rightarrow> int \<times> page option \<times> kernel" where
  "get_user_pages_fast env g =
     (if gup_ret env = 1 then (1, Some (gup_page env), get_page (gup_page env) g)
      else (gup_ret env, None, g))"

text \<open>\<^verbatim>\<open>alloc_page\<close>: a fresh page starts with one reference.\<close>

definition alloc_page :: "write_env \<Rightarrow> kernel \<Rightarrow> page option \<times> kernel" where
  "alloc_page env g =
     (case alloc_page_res env of
        None \<Rightarrow> (None, g)
      | Some p \<Rightarrow> (Some p, g\<lparr>refcount := (refcount g)(p := 1)\<rparr>))"

section \<open>The producer: \<^verbatim>\<open>tfs_file_write\<close>\<close>

text \<open>
  The two clamps applied to a non-zero \<^verbatim>\<open>count\<close>: first to one page, then to what is
  left of the page \<^verbatim>\<open>ubuf\<close> points into.
\<close>

definition clamp_count :: "u64 \<Rightarrow> u64 \<Rightarrow> u64" where
  "clamp_count ubuf count =
     (let count1 = (if count > PAGE_SIZE then PAGE_SIZE else count);
          off = ubuf AND NOT PAGE_MASK
      in if off + count1 > PAGE_SIZE then PAGE_SIZE - off else count1)"

text \<open>
  The enqueue both branches end with: \<^verbatim>\<open>list_add_tail\<close> under the spin lock, then
  \<^verbatim>\<open>wake_up_interruptible\<close>.  \<^verbatim>\<open>tfs_file_write\<close> does not test \<^verbatim>\<open>tfs_ctx\<close>; using a
  \<^verbatim>\<open>NULL\<close> context is a fault, the result \<open>None\<close>.
\<close>

definition enqueue_xfer :: "tfs_xfer \<Rightarrow> kernel \<Rightarrow> kernel option" where
  "enqueue_xfer x g =
     (case tfs_ctx g of
        None \<Rightarrow> None
      | Some d \<Rightarrow> Some (g\<lparr>tfs_ctx := Some (wake_up_interruptible (list_add_tail x d))\<rparr>))"

definition inc_write_errors :: "kernel \<Rightarrow> kernel option" where
  "inc_write_errors g =
     (case tfs_ctx g of
        None \<Rightarrow> None
      | Some d \<Rightarrow> Some (g\<lparr>tfs_ctx := Some (d\<lparr>write_errors := write_errors d + 1\<rparr>)\<rparr>))"

text \<open>
  The part of \<^verbatim>\<open>tfs_file_write\<close> after the page has been obtained with \<open>ret\<close>: the
  two checks of \<open>ret\<close>, then filling and queueing the item and advancing \<^verbatim>\<open>*ppos\<close>.
\<close>

definition finish_write ::
  "int \<Rightarrow> page option \<Rightarrow> u64 \<Rightarrow> u64 \<Rightarrow> kernel \<Rightarrow> (int \<times> u64 \<times> kernel) option" where
  "finish_write ret pg count ppos g =
     (if ret < 0 then Some (ret, ppos, g)
      else if ret \<noteq> 1 then Some (- EFAULT, ppos, g)
      else (case pg of
              None \<Rightarrow> None
            | Some p \<Rightarrow>
                (case enqueue_xfer \<lparr>page = Some p, offset = ppos, size_x = count,
                                    pfn = page_to_pfn p\<rparr> g of
                   None \<Rightarrow> None
                 | Some g' \<Rightarrow> Some (sint count, ppos + count, g'))))"

text \<open>
  \<^verbatim>\<open>tfs_file_write(file, ubuf, count, ppos)\<close>.  The result is the return value, the new
  \<^verbatim>\<open>*ppos\<close> and the new state.
\<close>

definition tfs_file_write ::
  "write_env \<Rightarrow> u64 \<Rightarrow> u64 \<Rightarrow> u64 \<Rightarrow> kernel \<Rightarrow> (int \<times> u64 \<times> kernel) option" where
  "tfs_file_write env ubuf count ppos g =
     (if count = 0 then
        (if \<not> kzalloc_ok env then Some (- ENOMEM, ppos, g)
         else (case enqueue_xfer \<lparr>page = None, offset = ppos, size_x = 0, pfn = 0\<rparr> g of
                 None \<Rightarrow> None
               | Some g' \<Rightarrow> Some (0, ppos, g')))
      else if \<not> access_ok env then Some (- EFAULT, ppos, g)
      else
        (let count' = clamp_count ubuf count in
         if \<not> kzalloc_ok env then Some (- ENOMEM, ppos, g)
         else if enable_zero_copy g then
           (case get_user_pages_fast env g of
              (ret, pg, g1) \<Rightarrow> finish_write ret pg count' ppos g1)
         else
           (case alloc_page env g of
              (None, g1) \<Rightarrow> Some (- ENOMEM, ppos, g1)
            | (Some p, g1) \<Rightarrow>
                if copy_from_user_fails env then
                  (case inc_write_errors (put_page p g1) of
                     None \<Rightarrow> None
                   | Some g2 \<Rightarrow> Some (- EFAULT, ppos, g2))
                else finish_write 1 (Some p) count' ppos g1)))"

section \<open>The control channel: \<^verbatim>\<open>tfs_ioctl\<close>\<close>

text \<open>
  The three commands of the character device; any other command number is
  \<open>OTHER_CMD\<close>.  What \<^verbatim>\<open>copy_to_user\<close> hands to the caller is the second component
  of the result.
\<close>

datatype ioctl_cmd = TFS_GET_XFER_COUNT | TFS_GET_XFER_INFO | TFS_RELEASE_XFER | OTHER_CMD nat

datatype ioctl_out = NoOut | OutCount int | OutInfo tfs_xfer_info

definition inc_ioctl_errors :: "tfs_data \<Rightarrow> kernel \<Rightarrow> kernel" where
  "inc_ioctl_errors d g = g\<lparr>tfs_ctx := Some (d\<lparr>ioctl_errors := ioctl_errors d + 1\<rparr>)\<rparr>"

text \<open>
  The loop of \<^verbatim>\<open>TFS_GET_XFER_COUNT\<close>: \<^verbatim>\<open>int count = 0\<close>, incremented once for every
  entry of the list.  The \<^verbatim>\<open>int\<close> has 32 bits and wraps around; the caller reads it as a
  signed number.
\<close>

definition count_entries :: "tfs_xfer list \<Rightarrow> 32 word" where
  "count_entries xs = fold (\<lambda>xfer count. count + 1) xs 0"

text \<open>
  \<^verbatim>\<open>tfs_ioctl(file, cmd, arg)\<close>; \<open>copy_fails\<close> tells whether \<^verbatim>\<open>copy_to_user\<close> leaves
  bytes uncopied.  \<^verbatim>\<open>TFS_RELEASE_XFER\<close> on an empty queue does nothing and returns 0.
\<close>

definition tfs_ioctl :: "bool \<Rightarrow> ioctl_cmd \<Rightarrow> u64 \<Rightarrow> kernel \<Rightarrow> int \<times> ioctl_out \<times> kernel" where
  "tfs_ioctl copy_fails cmd arg g =
     (case tfs_ctx g of
        None \<Rightarrow> (- EINVAL, NoOut, g)
      | Some d \<Rightarrow>
         (case cmd of
            TFS_GET_XFER_COUNT \<Rightarrow>
              if arg = 0 then (- EINVAL, NoOut, g)
              else if copy_fails then (- EFAULT, NoOut, inc_ioctl_errors d g)
              else (0, OutCount (sint (count_entries (xfer_list d))), g)
          | TFS_GET_XFER_INFO \<Rightarrow>
              if arg = 0 then (- EINVAL, NoOut, g)
              else (case xfer_list d of
                      [] \<Rightarrow> (- ENODATA, NoOut, g)
                    | xfer # rest \<Rightarrow>
                        if copy_fails then (- EFAULT, NoOut, inc_ioctl_errors d g)
                        else (0, OutInfo \<lparr>info_offset = offset xfer, info_size = size_x xfer,
                                           info_pfn = pfn xfer\<rparr>, g))
          | TFS_RELEASE_XFER \<Rightarrow>
              (case xfer_list d of
                 [] \<Rightarrow> (0, NoOut, g)
               | xfer # rest \<Rightarrow>
                   (let g1 = g\<lparr>tfs_ctx := Some (d\<lparr>xfer_list := rest\<rparr>)\<rparr>
                    in (0, NoOut, (case page xfer of None \<Rightarrow> g1 | Some p \<Rightarrow> put_page p g1))))
          | OTHER_CMD n \<Rightarrow> (- ENOTTY, NoOut, g)))"

section \<open>The mapping session: \<^verbatim>\<open>tfs_mmap\<close>\<close>

text \<open>
  The mutex \<^verbatim>\<open>mmap_lock\<close>.  \<^verbatim>\<open>mutex_lock\<close> on a held mutex does not return until the
  holder has released it: here the result is \<open>None\<close>, the caller waits.  On a free mutex
  it takes it.
\<close>

definition mutex_lock :: "tfs_data \<Rightarrow> tfs_data option" where
  "mutex_lock d = (if mmap_lock d then None else Some (d\<lparr>mmap_lock := True\<rparr>))"

definition mutex_unlock :: "tfs_data \<Rightarrow> tfs_data" where
  "mutex_unlock d = d\<lparr>mmap_lock := False\<rparr>"

text \<open>
  \<^verbatim>\<open>tfs_mmap(file, vma)\<close> for a vma from \<open>vm_start\<close> to \<open>vm_end\<close>, in the two parts the
  mutex divides it into.  \<open>mmap_enter\<close> is the code up to and including
  \<^verbatim>\<open>mutex_lock\<close>: the test of \<^verbatim>\<open>tfs_ctx\<close> and the test of the size, which both return
  before the lock and before the queue is looked at, and then the lock.  It ends with
  the call returned, or with the caller holding the mutex.
\<close>

datatype entered = Returned int kernel | Locked kernel

definition mmap_enter :: "u64 \<Rightarrow> u64 \<Rightarrow> kernel \<Rightarrow> entered option" where
  "mmap_enter vm_start vm_end g =
     (let vsize = vm_end - vm_start in
      case tfs_ctx g of
        None \<Rightarrow> Some (Returned (- EINVAL) g)
      | Some d \<Rightarrow>
          if vsize = 0 \<or> vsize > PAGE_SIZE then Some (Returned (- EINVAL) g)
          else (case mutex_lock d of
                  None \<Rightarrow> None
                | Some d' \<Rightarrow> Some (Locked (g\<lparr>tfs_ctx := Some d'\<rparr>))))"

text \<open>
  \<open>mmap_locked\<close> is the code that runs with the mutex held; \<open>remap_ret\<close> is what
  \<^verbatim>\<open>remap_pfn_range\<close> returns.  Every path ends with \<^verbatim>\<open>mutex_unlock\<close>.  A list entry is
  never \<^verbatim>\<open>NULL\<close>, so the test of \<^verbatim>\<open>xfer\<close> after \<^verbatim>\<open>list_first_entry\<close> has no branch here.
  The flags and the private pointer the call stores in the vma belong to the vma, which
  the kernel drops when the call fails; a range is recorded in \<open>mappings\<close> when
  \<^verbatim>\<open>remap_pfn_range\<close> has installed it.  The code uses \<^verbatim>\<open>tfs_ctx\<close> without a further
  test: a \<^verbatim>\<open>NULL\<close> context here is a fault, the result \<open>None\<close>.
\<close>

definition mmap_locked :: "int \<Rightarrow> u64 \<Rightarrow> u64 \<Rightarrow> kernel \<Rightarrow> (int \<times> kernel) option" where
  "mmap_locked remap_ret vm_start vm_end g =
     (let vsize = vm_end - vm_start in
      case tfs_ctx g of
        None \<Rightarrow> None
      | Some d \<Rightarrow>
          (case xfer_list d of
             [] \<Rightarrow> Some (- EINVAL, g\<lparr>tfs_ctx := Some (mutex_unlock d)\<rparr>)
           | xfer # rest \<Rightarrow>
               (case page xfer of
                  None \<Rightarrow> Some (0, g\<lparr>tfs_ctx := Some (mutex_unlock d)\<rparr>)
                | Some p \<Rightarrow>
                    (let g1 = get_page p g in
                     if remap_ret \<noteq> 0 then
                       Some (remap_ret,
                             put_page p
                               (g1\<lparr>tfs_ctx := Some (mutex_unlock
                                      (d\<lparr>mmap_errors := mmap_errors d + 1\<rparr>))\<rparr>))
                     else
                       Some (0,
                             g1\<lparr>tfs_ctx := Some (mutex_unlock (d\<lparr>current_xfer := Some xfer\<rparr>)),
                                mappings := mappings g1 @
                                  [\<lparr>map_start = vm_start, map_len = vsize,
                                    map_pfn = page_to_pfn p\<rparr>]\<rparr>)))))"

text \<open>The whole call: the first part, and the second when the first took the mutex.\<close>

definition tfs_mmap :: "int \<Rightarrow> u64 \<Rightarrow> u64 \<Rightarrow> kernel \<Rightarrow> (int \<times> kernel) option" where
  "tfs_mmap remap_ret vm_start vm_end g =
     (case mmap_enter vm_start vm_end g of
        None \<Rightarrow> None
      | Some (Returned r g') \<Rightarrow> Some (r, g')
      | Some (Locked g') \<Rightarrow> mmap_locked remap_ret vm_start vm_end g')"

text \<open>
  \<^verbatim>\<open>tfs_chardev_ops\<close> has the entries \<^verbatim>\<open>unlocked_ioctl\<close>, \<^verbatim>\<open>mmap\<close>, \<^verbatim>\<open>release\<close> and
  \<^verbatim>\<open>poll\<close>, and \<^verbatim>\<open>tfs_mmap\<close> installs no \<^verbatim>\<open>vm_ops\<close>: no code of the driver runs when
  the consumer calls \<^verbatim>\<open>munmap\<close>.  The range leaves the address space; the context and
  the page counts stay as they are (a range made by \<^verbatim>\<open>remap_pfn_range\<close> holds no page
  reference of its own).  \<^verbatim>\<open>tfs_release\<close>, the close of the device, only logs.
\<close>

definition munmap :: "u64 \<Rightarrow> kernel \<Rightarrow> kernel" where
  "munmap addr g = g\<lparr>mappings := filter (\<lambda>m. map_start m \<noteq> addr) (mappings g)\<rparr>"

text \<open>\<^verbatim>\<open>tfs_poll\<close>: readable exactly when the queue is not empty.\<close>

definition POLLIN :: nat where "POLLIN = 1"
definition POLLRDNORM :: nat where "POLLRDNORM = 64"

definition tfs_poll :: "tfs_data \<Rightarrow> nat" where
  "tfs_poll d = (if xfer_list d \<noteq> [] then POLLIN OR POLLRDNORM else 0)"

section \<open>The consumer daemon's mapping request\<close>

text \<open>
  \<^verbatim>\<open>tfsd\<close> asks for a mapping as long as the size it peeked, cut at 100 MB
  (\<^verbatim>\<open>main\<close>, before its call of \<^verbatim>\<open>mmap\<close>).
\<close>

definition tfsd_map_length :: "u64 \<Rightarrow> u64" where
  "tfsd_map_length sz = (if sz > 100 * 1024 * 1024 then 100 * 1024 * 1024 else sz)"

section \<open>Module start and sequences of calls\<close>

text \<open>
  The context as \<^verbatim>\<open>tfs_init\<close> leaves it: zeroed by \<^verbatim>\<open>kzalloc\<close>, the list empty, the
  mutex free, \<^verbatim>\<open>current_xfer\<close> \<^verbatim>\<open>NULL\<close>.
\<close>

definition fresh_ctx :: tfs_data where
  "fresh_ctx = \<lparr>wq = 0, xfer_list = [], mmap_lock = False, current_xfer = None,
                 read_errors = 0, write_errors = 0, ioctl_errors = 0, mmap_errors = 0\<rparr>"

text \<open>
  The state once the module is loaded with \<^verbatim>\<open>enable_zero_copy\<close> set to \<open>zc\<close>, the pages
  counted as \<open>refs\<close> tells, and nothing mapped.
\<close>

definition loaded :: "bool \<Rightarrow> (page \<Rightarrow> int) \<Rightarrow> kernel" where
  "loaded zc refs = \<lparr>tfs_ctx = Some fresh_ctx, enable_zero_copy = zc, refcount = refs,
                      mappings = []\<rparr>"

text \<open>
  One call into the driver, and a sequence of calls run one after the other.  Each call
  yields its return value and what it copied out; a call that does not return ends the
  run with \<open>None\<close>.
\<close>

datatype call =
    Write write_env u64 u64 u64
  | Ioctl bool ioctl_cmd u64
  | Mmap int u64 u64
  | Munmap u64

fun exec :: "call \<Rightarrow> kernel \<Rightarrow> ((int \<times> ioctl_out) \<times> kernel) option" where
  "exec (Write env ubuf count ppos) g =
     (case tfs_file_write env ubuf count ppos g of
        None \<Rightarrow> None
      | Some (r, p, g') \<Rightarrow> Some ((r, NoOut), g'))"
| "exec (Ioctl copy_fails cmd arg) g =
     (case tfs_ioctl copy_fails cmd arg g of (r, out, g') \<Rightarrow> Some ((r, out), g'))"
| "exec (Mmap remap_ret vm_start vm_end) g =
     (case tfs_mmap remap_ret vm_start vm_end g of
        None \<Rightarrow> None
      | Some (r, g') \<Rightarrow> Some ((r, NoOut), g'))"
| "exec (Munmap addr) g = Some ((0, NoOut), munmap addr g)"

fun run :: "call list \<Rightarrow> kernel \<Rightarrow> ((int \<times> ioctl_out) list \<times> kernel) option" where
  "run [] g = Some ([], g)"
| "run (c # cs) g =
     (case exec c g of
        None \<Rightarrow> None
      | Some (out, g') \<Rightarrow>
          (case run cs g' of
             None \<Rightarrow> None
           | Some (outs, g'') \<Rightarrow> Some (out # outs, g'')))"

text \<open>The queue reached through \<^verbatim>\<open>tfs_ctx\<close>; empty when there is no context.\<close>

definition queue :: "kernel \<Rightarrow> tfs_xfer list" where
  "queue g = (case tfs_ctx g of None \<Rightarrow> [] | Some d \<Rightarrow> xfer_list d)"

text \<open>The number of wake-ups sent to the wait queue so far.\<close>

definition wakeups :: "kernel \<Rightarrow> nat" where
  "wakeups g = (case tfs_ctx g of None \<Rightarrow> 0 | Some d \<Rightarrow> wq d)"

text \<open>
  The item a call of \<^verbatim>\<open>tfs_file_write\<close> builds, when it gets that far: the marker of
  a zero-length write, or one page with the clamped length.
\<close>

definition marker_xfer :: "u64 \<Rightarrow> tfs_xfer" where
  "marker_xfer ppos = \<lparr>page = None, offset = ppos, size_x = 0, pfn = 0\<rparr>"

definition page_xfer :: "page \<Rightarrow> u64 \<Rightarrow> u64 \<Rightarrow> u64 \<Rightarrow> tfs_xfer" where
  "page_xfer p ubuf count ppos =
     \<lparr>page = Some p, offset = ppos, size_x = clamp_count ubuf count, pfn = page_to_pfn p\<rparr>"

text \<open>
  The page a non-zero write ends up holding under mode \<open>zc\<close>, \<open>None\<close> when the pin, the
  allocation or the copy fails.
\<close>

definition obtained_page :: "bool \<Rightarrow> write_env \<Rightarrow> page option" where
  "obtained_page zc env =
     (if zc then (if gup_ret env = 1 then Some (gup_page env) else None)
      else if copy_from_user_fails env then None else alloc_page_res env)"

definition written_xfer :: "bool \<Rightarrow> write_env \<Rightarrow> u64 \<Rightarrow> u64 \<Rightarrow> u64 \<Rightarrow> tfs_xfer option" where
  "written_xfer zc env ubuf count ppos =
     (if count = 0 then (if kzalloc_ok env then Some (marker_xfer ppos) else None)
      else if access_ok env \<and> kzalloc_ok env then
        map_option (\<lambda>p. page_xfer p ubuf count ppos) (obtained_page zc env)
      else None)"

definition info_of :: "tfs_xfer \<Rightarrow> tfs_xfer_info" where
  "info_of x = \<lparr>info_offset = offset x, info_size = size_x x, info_pfn = pfn x\<rparr>"

section \<open>Concrete inputs\<close>

text \<open>An environment in which every step of a write succeeds.\<close>

definition env_ok :: write_env where
  "env_ok = \<lparr>access_ok = True, kzalloc_ok = True, gup_ret = 1, gup_page = 7,
             alloc_page_res = Some 9, copy_from_user_fails = False\<rparr>"

text \<open>The same environment with \<^verbatim>\<open>kzalloc\<close> returning \<^verbatim>\<open>NULL\<close>.\<close>

definition env_no_kzalloc :: write_env where
  "env_no_kzalloc = env_ok\<lparr>kzalloc_ok := False\<rparr>"

text \<open>A queue holding one five-byte item on page 7.\<close>

definition xfer7 :: tfs_xfer where
  "xfer7 = \<lparr>page = Some 7, offset = 0, size_x = 5, pfn = 7\<rparr>"

definition one_item :: kernel where
  "one_item = \<lparr>tfs_ctx = Some (fresh_ctx\<lparr>xfer_list := [xfer7]\<rparr>), enable_zero_copy = True,
                refcount = (\<lambda>p. 2), mappings = []\<rparr>"

text \<open>
  One pass of the consumer over one write: a five-byte write, a one-page mapping, its
  unmapping, and the release.
\<close>

definition full_cycle :: "call list" where
  "full_cycle = [Write env_ok 0x1100 5 0, Mmap 0 0x7f0000000000 0x7f0000001000,
                 Munmap 0x7f0000000000, Ioctl False TFS_RELEASE_XFER 0]"


text \<open>
  A write call as its environment and its three arguments; the items a list of write
  calls puts in the queue, in the order of the calls; \<open>n\<close> pairs of
  \<^verbatim>\<open>TFS_GET_XFER_INFO\<close> and \<^verbatim>\<open>TFS_RELEASE_XFER\<close>; and the records the peeks of a run
  copied out, in order.
\<close>

type_synonym write_args = "write_env \<times> u64 \<times> u64 \<times> u64"

definition write_call :: "write_args \<Rightarrow> call" where
  "write_call w = (case w of (env, ubuf, count, ppos) \<Rightarrow> Write env ubuf count ppos)"

definition accepted :: "bool \<Rightarrow> write_args list \<Rightarrow> tfs_xfer list" where
  "accepted zc ws =
     List.map_filter (\<lambda>w. case w of (env, ubuf, count, ppos) \<Rightarrow>
        written_xfer zc env ubuf count ppos) ws"

definition peek_release :: "u64 \<Rightarrow> nat \<Rightarrow> call list" where
  "peek_release arg n =
     concat (replicate n [Ioctl False TFS_GET_XFER_INFO arg, Ioctl False TFS_RELEASE_XFER 0])"

definition peeked :: "(int \<times> ioctl_out) list \<Rightarrow> tfs_xfer_info list" where
  "peeked outs =
     concat (map (\<lambda>ro. case snd ro of OutInfo i \<Rightarrow> [i] | OutCount n \<Rightarrow> [] | NoOut \<Rightarrow> []) outs)"

text \<open>Three writes: five bytes, a zero-length write, seven bytes from another page.\<close>

definition three_writes :: "write_args list" where
  "three_writes = [(env_ok, 0x1100, 5, 0), (env_ok, 0, 0, 100), (env_ok\<lparr>gup_page := 8\<rparr>, 0x2000, 7, 200)]"

section \<open>Callers of the mapping call side by side\<close>







section \<open>Facts about the write path\<close>

lemma PAGE_SIZE_val: "PAGE_SIZE = 4096"
  by (simp add: PAGE_SIZE_def PAGE_SHIFT_4K_def)

lemma page_offset_mask: "(ubuf :: u64) AND NOT PAGE_MASK = ubuf AND mask 12"
  by (simp add: PAGE_MASK_def PAGE_SIZE_val mask_eq_exp_minus_1)

lemma unat_page_offset: "unat ((ubuf :: u64) AND NOT PAGE_MASK) = unat ubuf mod 4096"
  by (simp add: page_offset_mask unsigned_take_bit_eq take_bit_eq_mod unat_mod flip: take_bit_eq_mask)

lemma clamp_arith:
  fixes k c :: nat
  assumes "k < 4096"
  shows "(if 4096 < k + min c 4096 then 4096 - k else min c 4096) = min c (4096 - k)"
  using assms by (auto simp: min_def)

lemma unat_clamp_count:
  "unat (clamp_count ubuf count) = min (unat count) (4096 - unat ubuf mod 4096)"
proof -
  define off where "off = ubuf AND NOT PAGE_MASK"
  define c1 where "c1 = (if count > PAGE_SIZE then PAGE_SIZE else count)"
  have off: "unat off = unat ubuf mod 4096"
    by (simp add: off_def unat_page_offset)
  have offlt: "unat off < 4096"
    unfolding off by simp
  have c1: "unat c1 = min (unat count) 4096"
    by (auto simp: c1_def PAGE_SIZE_val word_less_nat_alt)
  have sum: "unat (off + c1) = unat off + unat c1"
    using offlt c1 by (simp add: unat_word_ariths)
  have diff: "unat (4096 - off) = 4096 - unat off"
    using offlt by (simp add: unat_sub word_le_nat_alt)
  have "clamp_count ubuf count = (if off + c1 > PAGE_SIZE then PAGE_SIZE - off else c1)"
    by (simp add: clamp_count_def Let_def off_def c1_def)
  then have "unat (clamp_count ubuf count) =
      (if 4096 < unat off + min (unat count) 4096 then 4096 - unat off
       else min (unat count) 4096)"
    using sum diff c1 by (simp add: PAGE_SIZE_val word_less_nat_alt)
  also have "\<dots> = min (unat count) (4096 - unat off)"
    by (rule clamp_arith [OF offlt])
  finally show ?thesis
    by (simp only: off)
qed

lemma clamp_count_pos: "count \<noteq> 0 \<Longrightarrow> clamp_count ubuf count \<noteq> 0"
proof -
  assume "count \<noteq> 0"
  then have "0 < unat count" by (simp add: unat_gt_0)
  moreover have "unat ubuf mod 4096 < (4096::nat)" by simp
  ultimately have "0 < min (unat count) (4096 - unat ubuf mod 4096)"
    by (simp only: min_less_iff_conj zero_less_diff)
  then have "0 < unat (clamp_count ubuf count)" by (simp only: unat_clamp_count)
  then show ?thesis by (simp add: unat_gt_0)
qed

lemma sint_clamp_count:
  "sint (clamp_count ubuf count) = int (min (unat count) (4096 - unat ubuf mod 4096))"
proof -
  have eq: "uint (clamp_count ubuf count) = int (min (unat count) (4096 - unat ubuf mod 4096))"
    by (simp only: uint_nat unat_clamp_count)
  have "int (min (unat count) (4096 - unat ubuf mod 4096)) \<le> 4096"
    by simp
  then have small: "uint (clamp_count ubuf count) < 2 ^ 63"
    by (simp only: eq) simp
  have "- (2 ^ 63) \<le> uint (clamp_count ubuf count)"
    by (rule order_trans [of _ 0]) simp_all
  then have "signed_take_bit 63 (uint (clamp_count ubuf count)) = uint (clamp_count ubuf count)"
    using small by (rule signed_take_bit_int_eq_self)
  then have "sint (clamp_count ubuf count) = uint (clamp_count ubuf count)"
    by (simp add: sint_uint)
  then show ?thesis
    by (simp only: eq)
qed

lemma sint_clamp_count_nonneg: "0 \<le> sint (clamp_count ubuf count)"
  by (simp only: sint_clamp_count of_nat_0_le_iff)

lemma sint_clamp_count_pos: "count \<noteq> 0 \<Longrightarrow> 0 < sint (clamp_count ubuf count)"
proof -
  assume "count \<noteq> 0"
  then have "clamp_count ubuf count \<noteq> 0" by (rule clamp_count_pos)
  then have "0 < unat (clamp_count ubuf count)" by (simp add: unat_gt_0)
  then have "0 < min (unat count) (4096 - unat ubuf mod 4096)" by (simp only: unat_clamp_count)
  then show ?thesis by (simp only: sint_clamp_count of_nat_0_less_iff)
qed

lemma enqueue_xfer_ctx:
  "tfs_ctx g = Some d \<Longrightarrow>
   enqueue_xfer x g = Some (g\<lparr>tfs_ctx := Some (d\<lparr>xfer_list := xfer_list d @ [x], wq := wq d + 1\<rparr>)\<rparr>)"
  by (simp add: enqueue_xfer_def list_add_tail_def wake_up_interruptible_def)

lemma write_marker:
  assumes "tfs_ctx g = Some d" and "kzalloc_ok env"
  shows "tfs_file_write env ubuf 0 ppos g =
    Some (0, ppos, g\<lparr>tfs_ctx := Some (d\<lparr>xfer_list := xfer_list d @ [marker_xfer ppos],
                                          wq := wq d + 1\<rparr>)\<rparr>)"
  using assms by (simp add: tfs_file_write_def enqueue_xfer_ctx marker_xfer_def)

lemma write_zero_copy:
  assumes "tfs_ctx g = Some d" and "count \<noteq> 0" and "access_ok env" and "kzalloc_ok env"
    and "enable_zero_copy g" and "gup_ret env = 1"
  shows "tfs_file_write env ubuf count ppos g =
    Some (sint (clamp_count ubuf count), ppos + clamp_count ubuf count,
          g\<lparr>refcount := (refcount g)(gup_page env := refcount g (gup_page env) + 1),
            tfs_ctx := Some (d\<lparr>xfer_list := xfer_list d @ [page_xfer (gup_page env) ubuf count ppos],
                               wq := wq d + 1\<rparr>)\<rparr>)"
  using assms
  by (simp add: tfs_file_write_def Let_def get_user_pages_fast_def finish_write_def get_page_def
      enqueue_xfer_ctx page_xfer_def)

lemma write_fallback:
  assumes "tfs_ctx g = Some d" and "count \<noteq> 0" and "access_ok env" and "kzalloc_ok env"
    and "\<not> enable_zero_copy g" and "alloc_page_res env = Some p" and "\<not> copy_from_user_fails env"
  shows "tfs_file_write env ubuf count ppos g =
    Some (sint (clamp_count ubuf count), ppos + clamp_count ubuf count,
          g\<lparr>refcount := (refcount g)(p := 1),
            tfs_ctx := Some (d\<lparr>xfer_list := xfer_list d @ [page_xfer p ubuf count ppos],
                               wq := wq d + 1\<rparr>)\<rparr>)"
  using assms
  by (simp add: tfs_file_write_def Let_def alloc_page_def finish_write_def
      enqueue_xfer_ctx page_xfer_def)

lemma write_effect:
  assumes ctx: "tfs_ctx g = Some d"
  shows "\<exists>r p' g' d'. tfs_file_write env ubuf count ppos g = Some (r, p', g') \<and>
      tfs_ctx g' = Some d' \<and> enable_zero_copy g' = enable_zero_copy g \<and>
      mappings g' = mappings g \<and> mmap_lock d' = mmap_lock d \<and>
      current_xfer d' = current_xfer d \<and>
      xfer_list d' = xfer_list d @
        (case written_xfer (enable_zero_copy g) env ubuf count ppos of
           None \<Rightarrow> [] | Some x \<Rightarrow> [x]) \<and>
      (0 \<le> r \<longleftrightarrow> written_xfer (enable_zero_copy g) env ubuf count ppos \<noteq> None) \<and>
      (r < 0 \<longrightarrow> p' = ppos \<and> wq d' = wq d)"
proof (cases "written_xfer (enable_zero_copy g) env ubuf count ppos")
  case None
  then show ?thesis
    using ctx
    by (auto simp: written_xfer_def obtained_page_def tfs_file_write_def Let_def
        get_user_pages_fast_def finish_write_def alloc_page_def inc_write_errors_def
        put_page_def ENOMEM_def EFAULT_def
        split: if_splits option.splits)
next
  case (Some x)
  show ?thesis
  proof (cases "count = 0")
    case True
    with Some have "kzalloc_ok env" and "x = marker_xfer ppos"
      by (auto simp: written_xfer_def split: if_splits)
    then show ?thesis
      using True Some write_marker [OF ctx, of env ubuf ppos] by simp
  next
    case False
    with Some have ok: "access_ok env" "kzalloc_ok env"
      by (auto simp: written_xfer_def split: if_splits)
    from Some False ok obtain p where p: "obtained_page (enable_zero_copy g) env = Some p"
      and x: "x = page_xfer p ubuf count ppos"
      by (auto simp: written_xfer_def)
    show ?thesis
    proof (cases "enable_zero_copy g")
      case True
      with p have "gup_ret env = 1" "p = gup_page env"
        by (auto simp: obtained_page_def split: if_splits)
      then show ?thesis
        using write_zero_copy [OF ctx False ok True, of ubuf ppos] Some x
          sint_clamp_count_nonneg [of ubuf count]
        by simp
    next
      case zc: False
      with p have "alloc_page_res env = Some p" "\<not> copy_from_user_fails env"
        by (auto simp: obtained_page_def split: if_splits)
      then show ?thesis
        using write_fallback [OF ctx False ok zc, of p ubuf ppos] Some x
          sint_clamp_count_nonneg [of ubuf count]
        by simp
    qed
  qed
qed

lemma queue_ctx: "tfs_ctx g = Some d \<Longrightarrow> queue g = xfer_list d"
  by (simp add: queue_def)

section \<open>The producer\<close>

text \<open>
  C4.  A non-zero write that obtains its transfer structure and its page is accepted with
  the length cut to what is left of one page from the page offset of the caller's buffer:
  the smaller of \<open>count\<close> and \<open>PAGE_SIZE - ubuf mod PAGE_SIZE\<close>.  That length, which is
  at least 1, is the return value, the size of the queued item and the advance of the
  file position; the cut is not an error.
\<close>

theorem write_clamps_to_page:
  assumes "tfs_ctx g = Some d" and "count \<noteq> 0"
    and "access_ok env" and "kzalloc_ok env"
    and "obtained_page (enable_zero_copy g) env = Some p"
  shows "\<exists>g'. tfs_file_write env ubuf count ppos g =
            Some (int (min (unat count) (unat PAGE_SIZE - unat ubuf mod unat PAGE_SIZE)),
                  ppos + clamp_count ubuf count, g') \<and>
          queue g' = queue g @ [page_xfer p ubuf count ppos] \<and>
          unat (size_x (page_xfer p ubuf count ppos)) =
            min (unat count) (unat PAGE_SIZE - unat ubuf mod unat PAGE_SIZE) \<and>
          0 < min (unat count) (unat PAGE_SIZE - unat ubuf mod unat PAGE_SIZE)"
proof -
  have ps: "unat PAGE_SIZE = 4096"
    by (simp add: PAGE_SIZE_val)
  have sz: "unat (size_x (page_xfer p ubuf count ppos)) =
      min (unat count) (4096 - unat ubuf mod 4096)"
    by (simp add: page_xfer_def unat_clamp_count)
  have pos: "0 < min (unat count) (4096 - unat ubuf mod 4096)"
    using sint_clamp_count_pos [OF assms(2), of ubuf] by (simp only: sint_clamp_count of_nat_0_less_iff)
  show ?thesis
  proof (cases "enable_zero_copy g")
    case True
    with assms(5) have "gup_ret env = 1" "p = gup_page env"
      by (auto simp: obtained_page_def split: if_splits)
    then show ?thesis
      using write_zero_copy [OF assms(1-4) True, of ubuf ppos] sz pos assms(1)
      by (simp add: ps sint_clamp_count queue_def)
  next
    case False
    with assms(5) have "alloc_page_res env = Some p" "\<not> copy_from_user_fails env"
      by (auto simp: obtained_page_def split: if_splits)
    then show ?thesis
      using write_fallback [OF assms(1-4) False, of p ubuf ppos] sz pos assms(1)
      by (simp add: ps sint_clamp_count queue_def)
  qed
qed

theorem write_clamps_to_page_witness:
  "tfs_ctx (loaded True (\<lambda>p. 1)) = Some fresh_ctx \<and> (5000 :: u64) \<noteq> 0 \<and>
   access_ok env_ok \<and> kzalloc_ok env_ok \<and>
   obtained_page (enable_zero_copy (loaded True (\<lambda>p. 1))) env_ok = Some 7 \<and>
   map_option fst (tfs_file_write env_ok 0x1100 5000 0 (loaded True (\<lambda>p. 1))) = Some 3840"
  using write_clamps_to_page [of "loaded True (\<lambda>p. 1)" fresh_ctx 5000 env_ok 7 "0x1100" 0]
  by (auto simp: loaded_def env_ok_def obtained_page_def PAGE_SIZE_val)

lemma write_error_codes:
  assumes ctx: "tfs_ctx g = Some d" and nz: "count \<noteq> 0"
    and w: "tfs_file_write env ubuf count ppos g = Some (r, ppos', g')"
  shows "(\<not> access_ok env \<longrightarrow> r = - EFAULT) \<and>
     (access_ok env \<and> \<not> kzalloc_ok env \<longrightarrow> r = - ENOMEM) \<and>
     (access_ok env \<and> kzalloc_ok env \<and> enable_zero_copy g \<and> gup_ret env < 0 \<longrightarrow>
        r = gup_ret env) \<and>
     (access_ok env \<and> kzalloc_ok env \<and> enable_zero_copy g \<and> 0 \<le> gup_ret env \<and>
        gup_ret env \<noteq> 1 \<longrightarrow> r = - EFAULT) \<and>
     (access_ok env \<and> kzalloc_ok env \<and> \<not> enable_zero_copy g \<and>
        alloc_page_res env = None \<longrightarrow> r = - ENOMEM) \<and>
     (access_ok env \<and> kzalloc_ok env \<and> \<not> enable_zero_copy g \<and>
        alloc_page_res env \<noteq> None \<and> copy_from_user_fails env \<longrightarrow> r = - EFAULT)"
  using ctx nz w
  by (auto simp: tfs_file_write_def Let_def get_user_pages_fast_def finish_write_def
      alloc_page_def inc_write_errors_def put_page_def
      split: if_splits option.splits)

text \<open>
  C5.  Every call of the write path returns.  When it returns an error, the queue, the
  wait queue and the file position are as before the call: nothing is enqueued on an
  error path.  For a non-zero write the call fails exactly when the buffer is rejected,
  the transfer structure cannot be allocated, the pin does not return one page
  (zero-copy mode) or the page allocation or the copy fails (copy mode); the error is
  \<open>-ENOMEM\<close> for a failed allocation, \<open>-EFAULT\<close> for a rejected buffer, a failed copy
  or a pin of no page, and the pin's own negative code otherwise.
\<close>

theorem write_failure_enqueues_nothing:
  assumes ctx: "tfs_ctx g = Some d"
  shows "\<exists>r ppos' g'. tfs_file_write env ubuf count ppos g = Some (r, ppos', g') \<and>
     (r < 0 \<longrightarrow> queue g' = queue g \<and> wakeups g' = wakeups g \<and> ppos' = ppos) \<and>
     (count \<noteq> 0 \<longrightarrow>
       (r < 0 \<longleftrightarrow> \<not> access_ok env \<or> \<not> kzalloc_ok env \<or>
                    obtained_page (enable_zero_copy g) env = None) \<and>
       (\<not> access_ok env \<longrightarrow> r = - EFAULT) \<and>
       (access_ok env \<and> \<not> kzalloc_ok env \<longrightarrow> r = - ENOMEM) \<and>
       (access_ok env \<and> kzalloc_ok env \<and> enable_zero_copy g \<and> gup_ret env < 0 \<longrightarrow>
          r = gup_ret env) \<and>
       (access_ok env \<and> kzalloc_ok env \<and> enable_zero_copy g \<and> 0 \<le> gup_ret env \<and>
          gup_ret env \<noteq> 1 \<longrightarrow> r = - EFAULT) \<and>
       (access_ok env \<and> kzalloc_ok env \<and> \<not> enable_zero_copy g \<and>
          alloc_page_res env = None \<longrightarrow> r = - ENOMEM) \<and>
       (access_ok env \<and> kzalloc_ok env \<and> \<not> enable_zero_copy g \<and>
          alloc_page_res env \<noteq> None \<and> copy_from_user_fails env \<longrightarrow> r = - EFAULT))"
proof -
  from write_effect [OF ctx, of env ubuf count ppos]
  obtain r p' g' d' where w: "tfs_file_write env ubuf count ppos g = Some (r, p', g')"
    and ctx': "tfs_ctx g' = Some d'"
    and q: "xfer_list d' = xfer_list d @
        (case written_xfer (enable_zero_copy g) env ubuf count ppos of
           None \<Rightarrow> [] | Some x \<Rightarrow> [x])"
    and ok: "0 \<le> r \<longleftrightarrow> written_xfer (enable_zero_copy g) env ubuf count ppos \<noteq> None"
    and neg: "r < 0 \<longrightarrow> p' = ppos \<and> wq d' = wq d"
    by blast
  have a: "r < 0 \<longrightarrow> queue g' = queue g \<and> wakeups g' = wakeups g \<and> p' = ppos"
    using ctx ctx' q ok neg by (auto simp: queue_def wakeups_def)
  have b: "count \<noteq> 0 \<longrightarrow>
      (r < 0 \<longleftrightarrow> \<not> access_ok env \<or> \<not> kzalloc_ok env \<or>
                   obtained_page (enable_zero_copy g) env = None)"
    using ok by (auto simp: written_xfer_def split: if_splits)
  show ?thesis
    using w a b write_error_codes [OF ctx _ w]
    by (intro exI [of _ r] exI [of _ p'] exI [of _ g']) simp
qed

theorem write_failure_enqueues_nothing_witness:
  "tfs_ctx (loaded True (\<lambda>p. 1)) = Some fresh_ctx \<and>
   tfs_file_write env_no_kzalloc 0x1100 5 0 (loaded True (\<lambda>p. 1)) =
     Some (- ENOMEM, 0, loaded True (\<lambda>p. 1))"
  using write_failure_enqueues_nothing [of "loaded True (\<lambda>p. 1)" fresh_ctx env_no_kzalloc "0x1100" 5 0]
  by (auto simp: loaded_def env_no_kzalloc_def env_ok_def tfs_file_write_def)

text \<open>
  C10.  The queue's length plays no part in a write: with any list \<open>q\<close> in place of the
  queue the call returns, with the return value it has on the original queue, and when
  it succeeds the queue is one longer than \<open>q\<close>.  \<open>MAX_QUEUE_SIZE\<close> is not consulted:
  a queue already holding that many items takes one more.
\<close>

theorem enqueue_ignores_queue_length:
  assumes ctx: "tfs_ctx g = Some d"
  shows "\<exists>r ppos' g'.
     tfs_file_write env ubuf count ppos (g\<lparr>tfs_ctx := Some (d\<lparr>xfer_list := q\<rparr>)\<rparr>) =
       Some (r, ppos', g') \<and>
     map_option fst (tfs_file_write env ubuf count ppos g) = Some r \<and>
     (0 \<le> r \<longrightarrow> length (queue g') = Suc (length q))"
proof -
  let ?g = "g\<lparr>tfs_ctx := Some (d\<lparr>xfer_list := q\<rparr>)\<rparr>"
  have ctxq: "tfs_ctx ?g = Some (d\<lparr>xfer_list := q\<rparr>)" by simp
  from write_effect [OF ctxq, of env ubuf count ppos]
  obtain r p' g' d' where w: "tfs_file_write env ubuf count ppos ?g = Some (r, p', g')"
    and ctx': "tfs_ctx g' = Some d'"
    and ql: "xfer_list d' = xfer_list (d\<lparr>xfer_list := q\<rparr>) @
        (case written_xfer (enable_zero_copy ?g) env ubuf count ppos of
           None \<Rightarrow> [] | Some x \<Rightarrow> [x])"
    and ok: "0 \<le> r \<longleftrightarrow> written_xfer (enable_zero_copy ?g) env ubuf count ppos \<noteq> None"
    by blast
  have len: "0 \<le> r \<longrightarrow> length (queue g') = Suc (length q)"
    using ctx' ql ok by (auto simp: queue_def)
  have same: "map_option fst (tfs_file_write env ubuf count ppos g) =
      map_option fst (tfs_file_write env ubuf count ppos ?g)"
    using ctx
    by (auto simp: tfs_file_write_def Let_def get_user_pages_fast_def finish_write_def
        alloc_page_def inc_write_errors_def put_page_def get_page_def enqueue_xfer_def
        split: if_splits option.splits)
  show ?thesis
    using w len same by simp
qed

theorem enqueue_ignores_queue_length_witness:
  "tfs_ctx (loaded True (\<lambda>p. 1)) = Some fresh_ctx \<and>
   length (replicate MAX_QUEUE_SIZE (marker_xfer 0)) = 128 \<and>
   map_option (\<lambda>(r, p, g). (r, length (queue g)))
     (tfs_file_write env_ok 0x1100 5 0
        ((loaded True (\<lambda>p. 1))\<lparr>tfs_ctx := Some (fresh_ctx\<lparr>xfer_list :=
            replicate MAX_QUEUE_SIZE (marker_xfer 0)\<rparr>)\<rparr>)) = Some (5, 129)"
  using enqueue_ignores_queue_length [of "loaded True (\<lambda>p. 1)" fresh_ctx env_ok "0x1100" 5 0
      "replicate MAX_QUEUE_SIZE (marker_xfer 0)"]
  by (auto simp: loaded_def env_ok_def MAX_QUEUE_SIZE_def tfs_file_write_def Let_def
      get_user_pages_fast_def finish_write_def get_page_def enqueue_xfer_def list_add_tail_def
      wake_up_interruptible_def queue_def sint_clamp_count)

section \<open>The control channel and the mapping session\<close>

lemma release_head:
  assumes "tfs_ctx g = Some d" and "xfer_list d = x # xs"
  shows "tfs_ioctl copy_fails TFS_RELEASE_XFER arg g =
     (0, NoOut, (case page x of None \<Rightarrow> g\<lparr>tfs_ctx := Some (d\<lparr>xfer_list := xs\<rparr>)\<rparr>
                 | Some p \<Rightarrow> put_page p (g\<lparr>tfs_ctx := Some (d\<lparr>xfer_list := xs\<rparr>)\<rparr>)))"
  using assms by (simp add: tfs_ioctl_def Let_def)

lemma release_queue:
  "snd (snd (tfs_ioctl copy_fails TFS_RELEASE_XFER arg g)) = g' \<Longrightarrow> queue g' = tl (queue g)"
  by (auto simp: tfs_ioctl_def queue_def Let_def put_page_def split: option.splits list.splits)

lemma peek_head:
  assumes "tfs_ctx g = Some d" and "xfer_list d = x # xs" and "arg \<noteq> 0"
  shows "tfs_ioctl False TFS_GET_XFER_INFO arg g = (0, OutInfo (info_of x), g)"
  using assms by (simp add: tfs_ioctl_def info_of_def)

text \<open>
  C6.  \<^verbatim>\<open>TFS_GET_XFER_INFO\<close> with a user pointer to fill fails with \<open>-ENODATA\<close> exactly
  when the queue is empty.  It succeeds exactly when the queue is not empty and the copy
  to the caller goes through, and then hands out the offset, the size and the frame
  number of the head item and leaves the whole state as it was.  In every case the
  queue, the page counts and the mapped ranges are unchanged: the item is not removed
  and no memory is exposed.
\<close>

theorem peek_reports_head:
  assumes "tfs_ctx g = Some d" and "arg \<noteq> 0"
  shows "\<exists>r out g'. tfs_ioctl copy_fails TFS_GET_XFER_INFO arg g = (r, out, g') \<and>
      (r = - ENODATA \<longleftrightarrow> queue g = []) \<and>
      (r = 0 \<longleftrightarrow> queue g \<noteq> [] \<and> \<not> copy_fails) \<and>
      (r = 0 \<longrightarrow> out = OutInfo (info_of (hd (queue g))) \<and> g' = g) \<and>
      queue g' = queue g \<and> refcount g' = refcount g \<and> mappings g' = mappings g"
  using assms
  by (cases "xfer_list d")
     (auto simp: tfs_ioctl_def queue_def info_of_def inc_ioctl_errors_def ENODATA_def EFAULT_def)

theorem peek_reports_head_witness:
  "tfs_ctx one_item = Some (fresh_ctx\<lparr>xfer_list := [xfer7]\<rparr>) \<and> (1 :: u64) \<noteq> 0 \<and>
   tfs_ioctl False TFS_GET_XFER_INFO 1 one_item =
     (0, OutInfo \<lparr>info_offset = 0, info_size = 5, info_pfn = 7\<rparr>, one_item) \<and>
   fst (tfs_ioctl False TFS_GET_XFER_INFO 1 (loaded True (\<lambda>p. 1))) = - ENODATA"
  using peek_reports_head [of one_item "fresh_ctx\<lparr>xfer_list := [xfer7]\<rparr>" 1 False]
    peek_reports_head [of "loaded True (\<lambda>p. 1)" fresh_ctx 1 False]
  by (auto simp: one_item_def xfer7_def loaded_def fresh_ctx_def queue_def info_of_def)

lemma mmap_success:
  assumes "tfs_ctx g = Some d" and "xfer_list d = x # xs" and "page x = Some p"
    and "\<not> mmap_lock d" and "vm_end - vm_start \<noteq> 0" and "vm_end - vm_start \<le> PAGE_SIZE"
  shows "tfs_mmap 0 vm_start vm_end g =
     Some (0, g\<lparr>refcount := (refcount g)(p := refcount g p + 1),
                tfs_ctx := Some (d\<lparr>current_xfer := Some x\<rparr>),
                mappings := mappings g @
                  [\<lparr>map_start = vm_start, map_len = vm_end - vm_start, map_pfn = p\<rparr>]\<rparr>)"
proof -
  have "d\<lparr>mmap_lock := False, current_xfer := Some x\<rparr> = d\<lparr>current_xfer := Some x\<rparr>"
    using assms(4) by (cases d) simp
  then show ?thesis
    using assms
    by (simp add: tfs_mmap_def mmap_enter_def mmap_locked_def mutex_lock_def Let_def get_page_def mutex_unlock_def page_to_pfn_def
        linorder_not_less [symmetric])
qed

lemma mmap_failure:
  assumes "tfs_ctx g = Some d" and "xfer_list d = x # xs" and "page x = Some p"
    and "\<not> mmap_lock d" and "vm_end - vm_start \<noteq> 0" and "vm_end - vm_start \<le> PAGE_SIZE"
    and "remap_ret \<noteq> 0"
  shows "tfs_mmap remap_ret vm_start vm_end g =
     Some (remap_ret, g\<lparr>tfs_ctx := Some (d\<lparr>mmap_errors := mmap_errors d + 1\<rparr>)\<rparr>)"
proof -
  have "d\<lparr>mmap_lock := False, mmap_errors := mmap_errors d + 1\<rparr> =
      d\<lparr>mmap_errors := mmap_errors d + 1\<rparr>"
    using assms(4) by (cases d) simp
  then show ?thesis
    using assms
    by (simp add: tfs_mmap_def mmap_enter_def mmap_locked_def mutex_lock_def Let_def get_page_def put_page_def mutex_unlock_def
        linorder_not_less [symmetric])
qed

lemma mmap_marker:
  assumes "tfs_ctx g = Some d" and "xfer_list d = x # xs" and "page x = None"
    and "\<not> mmap_lock d" and "vm_end - vm_start \<noteq> 0" and "vm_end - vm_start \<le> PAGE_SIZE"
  shows "tfs_mmap remap_ret vm_start vm_end g = Some (0, g)"
proof -
  have "d\<lparr>mmap_lock := False\<rparr> = d"
    using assms(4) by (cases d) simp
  then have "g\<lparr>tfs_ctx := Some (d\<lparr>mmap_lock := False\<rparr>)\<rparr> = g"
    using assms(1) by (cases g) simp
  then show ?thesis
    using assms
    by (simp add: tfs_mmap_def mmap_enter_def mmap_locked_def mutex_lock_def Let_def mutex_unlock_def linorder_not_less [symmetric])
qed

lemma mmap_bad_size:
  assumes "vm_end - vm_start = 0 \<or> PAGE_SIZE < vm_end - vm_start"
  shows "tfs_mmap remap_ret vm_start vm_end g = Some (- EINVAL, g)"
  using assms by (auto simp: tfs_mmap_def mmap_enter_def mmap_locked_def mutex_lock_def Let_def split: option.splits)

lemma release_returns:
  "tfs_ctx g = Some d \<Longrightarrow> \<exists>g'. tfs_ioctl copy_fails TFS_RELEASE_XFER arg g = (0, NoOut, g')"
  by (cases "xfer_list d") (simp_all add: tfs_ioctl_def Let_def)

lemma release_ctx:
  "tfs_ctx g = Some d \<Longrightarrow> tfs_ioctl copy_fails TFS_RELEASE_XFER arg g = (r, out, g') \<Longrightarrow>
   \<exists>d'. tfs_ctx g' = Some d'"
  by (cases "xfer_list d") (auto simp: tfs_ioctl_def Let_def put_page_def split: option.splits)

lemma count_entries_fold:
  "fold (\<lambda>xfer count. count + 1) xs (c :: 32 word) = c + word_of_nat (length xs)"
  by (induction xs arbitrary: c) simp_all

lemma count_entries_length: "count_entries xs = word_of_nat (length xs)"
  by (simp add: count_entries_def count_entries_fold)

lemma count_entries_snoc: "count_entries (xs @ [x]) = count_entries xs + 1"
  by (simp add: count_entries_length)

lemma sint_count_entries:
  assumes "length xs < 2 ^ 31"
  shows "sint (count_entries xs) = int (length xs)"
proof -
  from assms have "int (length xs) < int (2 ^ 31)"
    by (simp only: of_nat_less_iff)
  then have "int (length xs) < 2 ^ 31"
    by simp
  moreover have "- (2 ^ 31) \<le> int (length xs)"
    by (rule order_trans [of _ 0]) simp_all
  ultimately have "signed_take_bit 31 (int (length xs)) = int (length xs)"
    by (simp add: signed_take_bit_int_eq_self)
  then show ?thesis
    by (simp add: count_entries_length signed_of_nat)
qed

lemma count_ioctl:
  "tfs_ctx g = Some d \<Longrightarrow> arg \<noteq> 0 \<Longrightarrow>
   tfs_ioctl False TFS_GET_XFER_COUNT arg g = (0, OutCount (sint (count_entries (queue g))), g)"
  by (simp add: tfs_ioctl_def queue_def)

text \<open>
  C8.  When \<^verbatim>\<open>remap_pfn_range\<close> fails after \<^verbatim>\<open>tfs_mmap\<close> has taken its reference on the
  head item's page, the call returns that error code, the reference is dropped again
  (every page count is as before), nothing is mapped, the mutex is free, and the item
  is still at the head of the queue; only the error counter moved.  The consumer can
  map again, which succeeds when the remap does, or release the item, which removes it
  and drops the queue's reference.
\<close>

theorem failed_mapping_keeps_item:
  assumes "tfs_ctx g = Some d" and "xfer_list d = x # xs" and "page x = Some p"
    and "\<not> mmap_lock d" and "vm_end - vm_start \<noteq> 0" and "vm_end - vm_start \<le> PAGE_SIZE"
    and "remap_ret \<noteq> 0"
  shows "\<exists>g' d'. tfs_mmap remap_ret vm_start vm_end g = Some (remap_ret, g') \<and>
      refcount g' = refcount g \<and> queue g' = queue g \<and> mappings g' = mappings g \<and>
      tfs_ctx g' = Some d' \<and> \<not> mmap_lock d' \<and> current_xfer d' = current_xfer d \<and>
      mmap_errors d' = mmap_errors d + 1 \<and>
      map_option fst (tfs_mmap 0 vm_start vm_end g') = Some 0 \<and>
      (\<exists>g''. tfs_ioctl copy_fails TFS_RELEASE_XFER arg g' = (0, NoOut, g'') \<and>
             queue g'' = xs \<and> refcount g'' p = refcount g p - 1)"
proof -
  let ?d = "d\<lparr>mmap_errors := mmap_errors d + 1\<rparr>"
  let ?g = "g\<lparr>tfs_ctx := Some ?d\<rparr>"
  have m: "tfs_mmap remap_ret vm_start vm_end g = Some (remap_ret, ?g)"
    using assms by (rule mmap_failure)
  have ctx': "tfs_ctx ?g = Some ?d" by simp
  have hd': "xfer_list ?d = x # xs" using assms(2) by simp
  have lk': "\<not> mmap_lock ?d" using assms(4) by simp
  have retry: "map_option fst (tfs_mmap 0 vm_start vm_end ?g) = Some 0"
    using mmap_success [OF ctx' hd' assms(3) lk' assms(5,6)] by simp
  have rel: "tfs_ioctl copy_fails TFS_RELEASE_XFER arg ?g =
      (0, NoOut, put_page p (?g\<lparr>tfs_ctx := Some (?d\<lparr>xfer_list := xs\<rparr>)\<rparr>))"
    using release_head [OF ctx' hd', of copy_fails arg] assms(3) by simp
  show ?thesis
    using m retry rel assms(1,2,4)
    by (simp add: queue_def put_page_def)
qed

theorem failed_mapping_keeps_item_witness:
  "tfs_ctx one_item = Some (fresh_ctx\<lparr>xfer_list := [xfer7]\<rparr>) \<and>
   xfer_list (fresh_ctx\<lparr>xfer_list := [xfer7]\<rparr>) = xfer7 # [] \<and> page xfer7 = Some 7 \<and>
   \<not> mmap_lock (fresh_ctx\<lparr>xfer_list := [xfer7]\<rparr>) \<and>
   (0x7f0000001000 :: u64) - 0x7f0000000000 \<noteq> 0 \<and>
   (0x7f0000001000 :: u64) - 0x7f0000000000 \<le> PAGE_SIZE \<and> - ENOMEM \<noteq> 0 \<and>
   map_option fst (tfs_mmap (- ENOMEM) 0x7f0000000000 0x7f0000001000 one_item) = Some (- 12) \<and>
   map_option (queue \<circ> snd) (tfs_mmap (- ENOMEM) 0x7f0000000000 0x7f0000001000 one_item) =
     Some [xfer7]"
  using failed_mapping_keeps_item [of one_item "fresh_ctx\<lparr>xfer_list := [xfer7]\<rparr>" xfer7 "[]" 7
      "0x7f0000001000" "0x7f0000000000" "- ENOMEM" False 0]
  by (auto simp: one_item_def xfer7_def fresh_ctx_def PAGE_SIZE_val ENOMEM_def queue_def)

text \<open>
  C2.  A zero-length write whose transfer structure is allocated returns 0, leaves the
  file position, and appends exactly one item of size 0 without a page; it wakes the
  wait queue once and the device polls readable.  When that marker is the head, a
  mapping request of at most one page returns 0 and changes nothing.  The release
  returns 0 and removes one item, and the count the device reports, the 32-bit
  counter of the entries, is one more after the write and one less again after the
  release; for a queue of fewer than \<open>2 ^ 31 - 1\<close> items these are the numbers of
  items themselves.
\<close>

theorem zero_length_write_enqueues_marker:
  assumes "tfs_ctx g = Some d" and "kzalloc_ok env"
  shows "\<exists>g' d'. tfs_file_write env ubuf 0 ppos g = Some (0, ppos, g') \<and>
      queue g' = queue g @ [marker_xfer ppos] \<and>
      size_x (marker_xfer ppos) = 0 \<and> page (marker_xfer ppos) = None \<and>
      refcount g' = refcount g \<and>
      tfs_ctx g' = Some d' \<and> wq d' = wq d + 1 \<and> tfs_poll d' = (POLLIN OR POLLRDNORM) \<and>
      (queue g = [] \<and> \<not> mmap_lock d \<and> vm_end - vm_start \<noteq> 0 \<and>
         vm_end - vm_start \<le> PAGE_SIZE \<longrightarrow>
       tfs_mmap remap_ret vm_start vm_end g' = Some (0, g')) \<and>
      (arg \<noteq> 0 \<longrightarrow>
       tfs_ioctl False TFS_GET_XFER_COUNT arg g' =
         (0, OutCount (sint (count_entries (queue g'))), g')) \<and>
      count_entries (queue g') = count_entries (queue g) + 1 \<and>
      (\<exists>g''. tfs_ioctl copy_fails TFS_RELEASE_XFER arg' g' = (0, NoOut, g'') \<and>
         length (queue g'') = length (queue g) \<and>
         (arg \<noteq> 0 \<longrightarrow>
          tfs_ioctl False TFS_GET_XFER_COUNT arg g'' =
            (0, OutCount (sint (count_entries (queue g''))), g'')) \<and>
         count_entries (queue g'') = count_entries (queue g') - 1 \<and>
         (length (queue g) < 2 ^ 31 - 1 \<longrightarrow>
          sint (count_entries (queue g')) = int (length (queue g)) + 1 \<and>
          sint (count_entries (queue g'')) = int (length (queue g))) \<and>
         (queue g = [] \<longrightarrow> queue g'' = [] \<and> refcount g'' = refcount g))"
proof -
  let ?d = "d\<lparr>xfer_list := xfer_list d @ [marker_xfer ppos], wq := wq d + 1\<rparr>"
  let ?g = "g\<lparr>tfs_ctx := Some ?d\<rparr>"
  have w: "tfs_file_write env ubuf 0 ppos g = Some (0, ppos, ?g)"
    using assms by (rule write_marker)
  have ctx': "tfs_ctx ?g = Some ?d" by simp
  have mp: "queue g = [] \<and> \<not> mmap_lock d \<and> vm_end - vm_start \<noteq> 0 \<and>
         vm_end - vm_start \<le> PAGE_SIZE \<longrightarrow>
       tfs_mmap remap_ret vm_start vm_end ?g = Some (0, ?g)"
  proof
    assume a: "queue g = [] \<and> \<not> mmap_lock d \<and> vm_end - vm_start \<noteq> 0 \<and>
         vm_end - vm_start \<le> PAGE_SIZE"
    then have hd': "xfer_list ?d = marker_xfer ppos # []"
      using assms(1) by (simp add: queue_def)
    have pg: "page (marker_xfer ppos) = None" by (simp add: marker_xfer_def)
    have lk: "\<not> mmap_lock ?d" using a by simp
    from a have v1: "vm_end - vm_start \<noteq> 0" and v2: "vm_end - vm_start \<le> PAGE_SIZE"
      by simp_all
    show "tfs_mmap remap_ret vm_start vm_end ?g = Some (0, ?g)"
      by (rule mmap_marker [OF ctx' hd' pg lk v1 v2])
  qed
  have q': "queue ?g = queue g @ [marker_xfer ppos]"
    using assms(1) by (simp add: queue_def)
  have cnt: "arg \<noteq> 0 \<longrightarrow> tfs_ioctl False TFS_GET_XFER_COUNT arg ?g =
         (0, OutCount (sint (count_entries (queue ?g))), ?g)"
    using count_ioctl [OF ctx', of arg] by simp
  have up: "count_entries (queue ?g) = count_entries (queue g) + 1"
    by (simp only: q' count_entries_snoc)
  obtain g'' where rel: "tfs_ioctl copy_fails TFS_RELEASE_XFER arg' ?g = (0, NoOut, g'')"
    using release_returns [OF ctx'] by blast
  then have q'': "queue g'' = tl (queue ?g)"
    using release_queue [of copy_fails arg' ?g g''] by simp
  from release_ctx [OF ctx' rel] obtain d'' where ctx'': "tfs_ctx g'' = Some d''" ..
  have len: "length (queue g'') = length (queue g)"
    using q'' q' by simp
  have cnt'': "arg \<noteq> 0 \<longrightarrow> tfs_ioctl False TFS_GET_XFER_COUNT arg g'' =
            (0, OutCount (sint (count_entries (queue g''))), g'')"
    using count_ioctl [OF ctx'', of arg] by simp
  have down: "count_entries (queue g'') = count_entries (queue ?g) - 1"
    using len up by (simp add: count_entries_length)
  have num: "length (queue g) < 2 ^ 31 - 1 \<longrightarrow>
          sint (count_entries (queue ?g)) = int (length (queue g)) + 1 \<and>
          sint (count_entries (queue g'')) = int (length (queue g))"
  proof
    assume b: "length (queue g) < 2 ^ 31 - 1"
    have lenq: "length (queue ?g) = Suc (length (queue g))"
      using q' by simp
    from b have "Suc (length (queue g)) < 2 ^ 31" and "length (queue g) < 2 ^ 31"
      by simp_all
    then have "length (queue ?g) < 2 ^ 31" and "length (queue g'') < 2 ^ 31"
      by (simp_all only: lenq len)
    then have "sint (count_entries (queue ?g)) = int (length (queue ?g))"
      and "sint (count_entries (queue g'')) = int (length (queue g''))"
      by (simp_all only: sint_count_entries)
    then show "sint (count_entries (queue ?g)) = int (length (queue g)) + 1 \<and>
          sint (count_entries (queue g'')) = int (length (queue g))"
      by (simp only: lenq len) simp
  qed
  have empty: "queue g = [] \<longrightarrow> queue g'' = [] \<and> refcount g'' = refcount g"
    using rel assms(1)
    by (auto simp: tfs_ioctl_def queue_def Let_def marker_xfer_def split: list.splits)
  have pl: "tfs_poll ?d = (POLLIN OR POLLRDNORM)"
    by (simp add: tfs_poll_def)
  have rel': "\<exists>g''. tfs_ioctl copy_fails TFS_RELEASE_XFER arg' ?g = (0, NoOut, g'') \<and>
         length (queue g'') = length (queue g) \<and>
         (arg \<noteq> 0 \<longrightarrow>
          tfs_ioctl False TFS_GET_XFER_COUNT arg g'' =
            (0, OutCount (sint (count_entries (queue g''))), g'')) \<and>
         count_entries (queue g'') = count_entries (queue ?g) - 1 \<and>
         (length (queue g) < 2 ^ 31 - 1 \<longrightarrow>
          sint (count_entries (queue ?g)) = int (length (queue g)) + 1 \<and>
          sint (count_entries (queue g'')) = int (length (queue g))) \<and>
         (queue g = [] \<longrightarrow> queue g'' = [] \<and> refcount g'' = refcount g)"
    using rel len cnt'' down num empty by blast
  show ?thesis
    using w q' pl mp cnt up rel'
    by (intro exI [of _ ?g] exI [of _ ?d]) (simp add: marker_xfer_def)
qed

theorem zero_length_write_enqueues_marker_witness:
  "tfs_ctx (loaded True (\<lambda>p. 1)) = Some fresh_ctx \<and> kzalloc_ok env_ok \<and>
   run [Write env_ok 0 0 0, Ioctl False TFS_GET_XFER_COUNT 1, Ioctl False TFS_GET_XFER_INFO 1,
        Mmap 0 0x7f0000000000 0x7f0000001000, Ioctl False TFS_RELEASE_XFER 0,
        Ioctl False TFS_GET_XFER_COUNT 1] (loaded True (\<lambda>p. 1)) =
     Some ([(0, NoOut), (0, OutCount 1),
            (0, OutInfo \<lparr>info_offset = 0, info_size = 0, info_pfn = 0\<rparr>),
            (0, NoOut), (0, NoOut), (0, OutCount 0)],
           (loaded True (\<lambda>p. 1))\<lparr>tfs_ctx := Some (fresh_ctx\<lparr>wq := 1\<rparr>)\<rparr>)"
  using zero_length_write_enqueues_marker [of "loaded True (\<lambda>p. 1)" fresh_ctx env_ok 0 0
      "0x7f0000001000" "0x7f0000000000" 0 1 False 0]
  by (simp add: loaded_def env_ok_def fresh_ctx_def tfs_file_write_def enqueue_xfer_def
      list_add_tail_def wake_up_interruptible_def tfs_ioctl_def count_entries_def
      tfs_mmap_def mmap_enter_def mmap_locked_def mutex_lock_def mutex_unlock_def
      PAGE_SIZE_val Let_def)

section \<open>Page references and mapping sessions\<close>

lemma munmap_keeps_counts:
  "refcount (munmap addr g) = refcount g \<and> tfs_ctx (munmap addr g) = tfs_ctx g"
  by (simp add: munmap_def)

text \<open>
  The pass write, map, unmap, release from any state with an empty queue: the queue is
  empty again, and the page of the item has one reference more than before the write
  in zero-copy mode, and one reference left in copy mode.
\<close>

lemma cycle_net_reference:
  assumes "tfs_ctx g = Some d" and "xfer_list d = []" and "\<not> mmap_lock d"
    and "count \<noteq> 0" and "access_ok env" and "kzalloc_ok env"
    and "obtained_page (enable_zero_copy g) env = Some p"
    and "vm_end - vm_start \<noteq> 0" and "vm_end - vm_start \<le> PAGE_SIZE"
  shows "\<exists>outs g'.
     run [Write env ubuf count ppos, Mmap 0 vm_start vm_end, Munmap vm_start,
          Ioctl copy_fails TFS_RELEASE_XFER arg] g = Some (outs, g') \<and>
     map fst outs = [sint (clamp_count ubuf count), 0, 0, 0] \<and> queue g' = [] \<and>
     refcount g' p = (if enable_zero_copy g then refcount g p + 1 else 1)"
proof (cases "enable_zero_copy g")
  case True
  with assms(7) have "gup_ret env = 1" "p = gup_page env"
    by (auto simp: obtained_page_def split: if_splits)
  then show ?thesis
    using assms True
    by (simp add: write_zero_copy tfs_mmap_def mmap_enter_def mmap_locked_def mutex_lock_def Let_def page_xfer_def get_page_def
        mutex_unlock_def munmap_def tfs_ioctl_def put_page_def queue_def
        linorder_not_less [symmetric])
next
  case False
  with assms(7) have "alloc_page_res env = Some p" "\<not> copy_from_user_fails env"
    by (auto simp: obtained_page_def split: if_splits)
  then show ?thesis
    using assms False
    by (simp add: write_fallback tfs_mmap_def mmap_enter_def mmap_locked_def mutex_lock_def Let_def page_xfer_def get_page_def
        mutex_unlock_def munmap_def tfs_ioctl_def put_page_def queue_def
        linorder_not_less [symmetric])
qed

text \<open>
  C1.  The count of an item's page goes up by one when the write pins or allocates the
  page and by one when a mapping succeeds, and down by one at the release; unmapping
  runs no code of the driver and gives nothing back.  So the pass write, map, unmap,
  release does not restore the count.  In zero-copy mode page 7 starts at 1 and ends at
  2; in copy mode the freshly allocated page 9 ends at 1 instead of 0, with the queue
  empty and nothing mapped.
\<close>

theorem cycle_leaves_page_reference:
  "map_option fst (run full_cycle (loaded True (\<lambda>p. 1))) =
     Some [(5, NoOut), (0, NoOut), (0, NoOut), (0, NoOut)] \<and>
   map_option ((\<lambda>g. (refcount g 7, queue g, mappings g)) \<circ> snd)
     (run full_cycle (loaded True (\<lambda>p. 1))) = Some (2, [], []) \<and>
   refcount (loaded True (\<lambda>p. 1)) 7 = 1 \<and>
   map_option fst (run full_cycle (loaded False (\<lambda>p. 0))) =
     Some [(5, NoOut), (0, NoOut), (0, NoOut), (0, NoOut)] \<and>
   map_option ((\<lambda>g. (refcount g 9, queue g, mappings g)) \<circ> snd)
     (run full_cycle (loaded False (\<lambda>p. 0))) = Some (1, [], [])"
  by (simp add: full_cycle_def loaded_def env_ok_def fresh_ctx_def tfs_file_write_def
      Let_def get_user_pages_fast_def alloc_page_def finish_write_def get_page_def put_page_def
      enqueue_xfer_def list_add_tail_def wake_up_interruptible_def tfs_ioctl_def tfs_mmap_def mmap_enter_def mmap_locked_def mutex_lock_def
      mutex_unlock_def munmap_def queue_def page_to_pfn_def PAGE_SIZE_val sint_clamp_count)












text \<open>
  C7, as stated, fails: the daemon leaves a request of two pages as it is, and cuts a
  request of 200 MB to 100 MB; \<^verbatim>\<open>tfs_mmap\<close> answers both with \<open>-EINVAL\<close>.  No request
  above one page is let through because of the ceiling.
\<close>

theorem clamped_request_is_rejected:
  "tfsd_map_length 8192 = 8192 \<and>
   tfs_mmap 0 0x7f0000000000 (0x7f0000000000 + tfsd_map_length 8192) one_item =
     Some (- EINVAL, one_item) \<and>
   tfsd_map_length 209715200 = 104857600 \<and>
   tfs_mmap 0 0x7f0000000000 (0x7f0000000000 + tfsd_map_length 209715200) one_item =
     Some (- EINVAL, one_item)"
  by (simp add: tfsd_map_length_def tfs_mmap_def mmap_enter_def mmap_locked_def mutex_lock_def Let_def one_item_def PAGE_SIZE_val)

lemma tfsd_map_length_over_page:
  "PAGE_SIZE < sz \<Longrightarrow> PAGE_SIZE < tfsd_map_length sz"
  by (simp add: tfsd_map_length_def PAGE_SIZE_val)

lemma written_xfer_size:
  "written_xfer zc env ubuf count ppos = Some x \<Longrightarrow> size_x x \<le> PAGE_SIZE"
proof -
  assume a: "written_xfer zc env ubuf count ppos = Some x"
  have "unat (clamp_count ubuf count) \<le> 4096"
    by (simp add: unat_clamp_count)
  then have "clamp_count ubuf count \<le> PAGE_SIZE"
    by (simp add: word_le_nat_alt PAGE_SIZE_val)
  then show ?thesis
    using a
    by (auto simp: written_xfer_def marker_xfer_def page_xfer_def split: if_splits)
qed

text \<open>
  C7, amended.  \<^verbatim>\<open>tfs_mmap\<close> returns \<open>-EINVAL\<close> and changes nothing whenever the
  requested range is empty or longer than one page; the test is on the request, not on
  the head item.  The length the daemon asks for a size above one page is itself above
  one page, cut at 100 MB or not, so every such request is rejected.  The size of a
  queued item never exceeds one page: a write keeps that bound.
\<close>

theorem oversized_map_is_rejected:
  "(vm_end - vm_start = 0 \<or> PAGE_SIZE < vm_end - vm_start \<longrightarrow>
      tfs_mmap remap_ret vm_start vm_end g = Some (- EINVAL, g)) \<and>
   (PAGE_SIZE < sz \<and> tfsd_map_length sz \<le> vm_end - vm_start \<longrightarrow>
      tfs_mmap remap_ret vm_start vm_end g = Some (- EINVAL, g)) \<and>
   (tfs_ctx g = Some d \<and> (\<forall>x \<in> set (queue g). size_x x \<le> PAGE_SIZE) \<and>
    tfs_file_write env ubuf count ppos g = Some (r, ppos', g') \<longrightarrow>
      (\<forall>x \<in> set (queue g'). size_x x \<le> PAGE_SIZE))"
proof (intro conjI impI)
  assume "vm_end - vm_start = 0 \<or> PAGE_SIZE < vm_end - vm_start"
  then show "tfs_mmap remap_ret vm_start vm_end g = Some (- EINVAL, g)"
    by (rule mmap_bad_size)
next
  assume a: "PAGE_SIZE < sz \<and> tfsd_map_length sz \<le> vm_end - vm_start"
  then have b: "tfsd_map_length sz \<le> vm_end - vm_start"
    by simp
  from a have "PAGE_SIZE < tfsd_map_length sz"
    by (simp add: tfsd_map_length_over_page)
  then have "PAGE_SIZE < vm_end - vm_start"
    using b by (rule less_le_trans)
  then show "tfs_mmap remap_ret vm_start vm_end g = Some (- EINVAL, g)"
    by (simp add: mmap_bad_size)
next
  assume a: "tfs_ctx g = Some d \<and> (\<forall>x \<in> set (queue g). size_x x \<le> PAGE_SIZE) \<and>
    tfs_file_write env ubuf count ppos g = Some (r, ppos', g')"
  then have ctx: "tfs_ctx g = Some d" by simp
  from write_effect [OF ctx, of env ubuf count ppos] a
  obtain d' where "tfs_ctx g' = Some d'"
    and "xfer_list d' = xfer_list d @
        (case written_xfer (enable_zero_copy g) env ubuf count ppos of
           None \<Rightarrow> [] | Some x \<Rightarrow> [x])"
    by auto
  then show "\<forall>x \<in> set (queue g'). size_x x \<le> PAGE_SIZE"
    using a written_xfer_size [of "enable_zero_copy g" env ubuf count ppos]
    by (auto simp: queue_def split: option.splits)
qed

theorem oversized_map_is_rejected_witness:
  "PAGE_SIZE < 0x7f0000002000 - 0x7f0000000000 \<and>
   PAGE_SIZE < 8192 \<and> tfsd_map_length 8192 \<le> 0x7f0000002000 - 0x7f0000000000 \<and>
   tfs_mmap 0 0x7f0000000000 0x7f0000002000 one_item = Some (- EINVAL, one_item) \<and>
   tfs_ctx one_item = Some (fresh_ctx\<lparr>xfer_list := [xfer7]\<rparr>) \<and>
   list_all (\<lambda>x. size_x x \<le> PAGE_SIZE) (queue one_item) \<and>
   map_option (list_all (\<lambda>x. size_x x \<le> PAGE_SIZE) \<circ> queue \<circ> snd \<circ> snd)
     (tfs_file_write env_ok 0x1100 5000 0 one_item) = Some True"
proof -
  obtain r p' g' where w: "tfs_file_write env_ok 0x1100 5000 0 one_item = Some (r, p', g')"
    using write_effect [of one_item "fresh_ctx\<lparr>xfer_list := [xfer7]\<rparr>" env_ok "0x1100" 5000 0]
    by (auto simp: one_item_def)
  show ?thesis
    using oversized_map_is_rejected [of "0x7f0000002000" "0x7f0000000000" 0 one_item 8192
        "fresh_ctx\<lparr>xfer_list := [xfer7]\<rparr>" env_ok "0x1100" 5000 0 r p' g'] w
    by (simp add: PAGE_SIZE_val tfsd_map_length_def one_item_def xfer7_def fresh_ctx_def
        queue_def list_all_iff)
qed

section \<open>Queue order\<close>

lemma run_append:
  "run (a @ b) g =
     (case run a g of
        None \<Rightarrow> None
      | Some (oa, g') \<Rightarrow>
          (case run b g' of None \<Rightarrow> None | Some (ob, g'') \<Rightarrow> Some (oa @ ob, g'')))"
  by (induction a arbitrary: g) (auto split: option.splits)

lemma accepted_Cons:
  "accepted zc ((env, ubuf, count, ppos) # ws) =
     (case written_xfer zc env ubuf count ppos of None \<Rightarrow> [] | Some x \<Rightarrow> [x]) @ accepted zc ws"
  by (simp add: accepted_def List.map_filter_simps split: option.splits)

lemma peeked_append: "peeked (a @ b) = peeked a @ peeked b"
  by (simp add: peeked_def)

lemma run_writes:
  "tfs_ctx g = Some d \<Longrightarrow>
   \<exists>outs g' d'. run (map write_call ws) g = Some (outs, g') \<and> tfs_ctx g' = Some d' \<and>
      enable_zero_copy g' = enable_zero_copy g \<and>
      xfer_list d' = xfer_list d @ accepted (enable_zero_copy g) ws \<and> peeked outs = []"
proof (induction ws arbitrary: g d)
  case Nil
  then show ?case by (simp add: accepted_def List.map_filter_simps peeked_def)
next
  case (Cons w ws)
  obtain env ubuf count ppos where w: "w = (env, ubuf, count, ppos)"
    by (cases w) auto
  from write_effect [OF Cons.prems, of env ubuf count ppos]
  obtain r p' g1 d1 where w1: "tfs_file_write env ubuf count ppos g = Some (r, p', g1)"
    and ctx1: "tfs_ctx g1 = Some d1" and zc1: "enable_zero_copy g1 = enable_zero_copy g"
    and q1: "xfer_list d1 = xfer_list d @
        (case written_xfer (enable_zero_copy g) env ubuf count ppos of
           None \<Rightarrow> [] | Some x \<Rightarrow> [x])"
    by blast
  from Cons.IH [OF ctx1]
  obtain outs g' d' where r: "run (map write_call ws) g1 = Some (outs, g')"
    and ctx': "tfs_ctx g' = Some d'" and zc': "enable_zero_copy g' = enable_zero_copy g1"
    and q': "xfer_list d' = xfer_list d1 @ accepted (enable_zero_copy g1) ws"
    and pk: "peeked outs = []"
    by blast
  have "run (map write_call (w # ws)) g = Some ((r, NoOut) # outs, g')"
    using w w1 r by (simp add: write_call_def)
  moreover have "peeked ((r, NoOut) # outs) = []"
    using pk by (simp add: peeked_def)
  moreover have "xfer_list d' = xfer_list d @ accepted (enable_zero_copy g) (w # ws)"
    using q' q1 zc1 w by (simp add: accepted_Cons)
  ultimately show ?case
    using ctx' zc' zc1 by simp
qed

lemma run_peek_release:
  "tfs_ctx g = Some d \<Longrightarrow> arg \<noteq> 0 \<Longrightarrow> xfer_list d = q \<Longrightarrow>
   \<exists>outs g' d'. run (peek_release arg (length q)) g = Some (outs, g') \<and>
      peeked outs = map info_of q \<and> tfs_ctx g' = Some d' \<and> xfer_list d' = []"
proof (induction q arbitrary: g d)
  case Nil
  then show ?case by (simp add: peek_release_def peeked_def)
next
  case (Cons x xs)
  let ?g0 = "g\<lparr>tfs_ctx := Some (d\<lparr>xfer_list := xs\<rparr>)\<rparr>"
  let ?g1 = "case page x of None \<Rightarrow> ?g0 | Some p \<Rightarrow> put_page p ?g0"
  have pk: "tfs_ioctl False TFS_GET_XFER_INFO arg g = (0, OutInfo (info_of x), g)"
    using Cons.prems by (simp add: peek_head)
  have rl: "tfs_ioctl False TFS_RELEASE_XFER 0 g = (0, NoOut, ?g1)"
    using Cons.prems by (simp add: release_head)
  have ctx1: "tfs_ctx ?g1 = Some (d\<lparr>xfer_list := xs\<rparr>)"
    by (simp add: put_page_def split: option.splits)
  have "xfer_list (d\<lparr>xfer_list := xs\<rparr>) = xs" by simp
  from Cons.IH [OF ctx1 Cons.prems(2) this]
  obtain outs g' d' where r: "run (peek_release arg (length xs)) ?g1 = Some (outs, g')"
    and p: "peeked outs = map info_of xs" and c: "tfs_ctx g' = Some d'" and e: "xfer_list d' = []"
    by blast
  have "run (peek_release arg (length (x # xs))) g =
      Some ((0, OutInfo (info_of x)) # (0, NoOut) # outs, g')"
    using pk rl r by (simp add: peek_release_def)
  moreover have "peeked ((0, OutInfo (info_of x)) # (0, NoOut) # outs) = map info_of (x # xs)"
    using p by (simp add: peeked_def)
  ultimately show ?case
    using c e by blast
qed

text \<open>
  C3.  \<^verbatim>\<open>TFS_RELEASE_XFER\<close> removes the head of the queue and nothing else.  Running
  any list of writes and then one peek and release for every item then queued yields,
  in the peeks, first the items that were queued before, then the items of the accepted
  writes in the order the writes ran, and leaves the queue empty.
\<close>

theorem fifo_order:
  assumes ctx: "tfs_ctx g = Some d" and arg: "arg \<noteq> 0"
  shows "(\<forall>x xs. queue g = x # xs \<longrightarrow>
            queue (snd (snd (tfs_ioctl copy_fails TFS_RELEASE_XFER arg' g))) = xs) \<and>
         (\<exists>outs g'.
            run (map write_call ws @
                 peek_release arg (length (queue g @ accepted (enable_zero_copy g) ws))) g =
              Some (outs, g') \<and>
            peeked outs = map info_of (queue g @ accepted (enable_zero_copy g) ws) \<and>
            queue g' = [])"
proof
  show "\<forall>x xs. queue g = x # xs \<longrightarrow>
            queue (snd (snd (tfs_ioctl copy_fails TFS_RELEASE_XFER arg' g))) = xs"
    using release_queue [of copy_fails arg' g] by simp
next
  from run_writes [OF ctx, of ws]
  obtain o1 g1 d1 where r1: "run (map write_call ws) g = Some (o1, g1)"
    and c1: "tfs_ctx g1 = Some d1"
    and q1: "xfer_list d1 = xfer_list d @ accepted (enable_zero_copy g) ws"
    and p1: "peeked o1 = []"
    by blast
  from run_peek_release [OF c1 arg q1]
  obtain o2 g2 d2 where r2: "run (peek_release arg
        (length (xfer_list d @ accepted (enable_zero_copy g) ws))) g1 = Some (o2, g2)"
    and p2: "peeked o2 = map info_of (xfer_list d @ accepted (enable_zero_copy g) ws)"
    and c2: "tfs_ctx g2 = Some d2" and e2: "xfer_list d2 = []"
    by blast
  have "run (map write_call ws @
             peek_release arg (length (queue g @ accepted (enable_zero_copy g) ws))) g =
        Some (o1 @ o2, g2)"
    using r1 r2 ctx by (simp add: run_append queue_def)
  moreover have "peeked (o1 @ o2) = map info_of (queue g @ accepted (enable_zero_copy g) ws)"
    using p1 p2 ctx by (simp add: peeked_append queue_def)
  moreover have "queue g2 = []"
    using c2 e2 by (simp add: queue_def)
  ultimately show "\<exists>outs g'.
            run (map write_call ws @
                 peek_release arg (length (queue g @ accepted (enable_zero_copy g) ws))) g =
              Some (outs, g') \<and>
            peeked outs = map info_of (queue g @ accepted (enable_zero_copy g) ws) \<and>
            queue g' = []"
    by blast
qed

lemma accepted_three: "accepted True three_writes =
   [page_xfer 7 0x1100 5 0, marker_xfer 100, page_xfer 8 0x2000 7 200]"
  by (simp add: accepted_def three_writes_def List.map_filter_simps written_xfer_def
      obtained_page_def env_ok_def)

theorem fifo_order_witness:
  "tfs_ctx (loaded True (\<lambda>p. 1)) = Some fresh_ctx \<and> (1 :: u64) \<noteq> 0 \<and>
   map_option (peeked \<circ> fst)
     (run (map write_call three_writes @ peek_release 1 3) (loaded True (\<lambda>p. 1))) =
     Some [\<lparr>info_offset = 0, info_size = 5, info_pfn = 7\<rparr>,
           \<lparr>info_offset = 100, info_size = 0, info_pfn = 0\<rparr>,
           \<lparr>info_offset = 200, info_size = 7, info_pfn = 8\<rparr>]"
proof -
  have c: "tfs_ctx (loaded True (\<lambda>p. 1)) = Some fresh_ctx"
    by (simp add: loaded_def)
  have q: "queue (loaded True (\<lambda>p. 1)) = []"
    by (simp add: loaded_def queue_def fresh_ctx_def)
  have z: "enable_zero_copy (loaded True (\<lambda>p. 1))"
    by (simp add: loaded_def)
  have s5: "clamp_count 0x1100 5 = 5"
    by (simp add: clamp_count_def PAGE_MASK_def PAGE_SIZE_val Let_def)
  have s7: "clamp_count 0x2000 7 = 7"
    by (simp add: clamp_count_def PAGE_MASK_def PAGE_SIZE_val Let_def)
  show ?thesis
    using fifo_order [OF c, of 1 False 0 three_writes] q z c
    by (auto simp: accepted_three info_of_def page_xfer_def marker_xfer_def page_to_pfn_def s5 s7
        numeral_3_eq_3)
qed

end
